theory Spec2Isabelle
  imports Main "HOL-Library.Word" "HOL-Library.Sublist"
begin

section \<open>The Modbus server: data model\<close>

text \<open>
  The development follows \<^verbatim>\<open>server.go\<close> and \<^verbatim>\<open>servetcp.go\<close>. Go values that the two files
  only pass around (connections, listeners, serial ports, hook functions) are opaque
  references; every effect on the outside world (a log line, a write on a connection, a
  hook call, a goroutine started, a hand-off on the request channel) is an entry of an
  event list returned next to the result, in the order the code performs it. A hook is
  taken to return and to leave the server as it is.
\<close>

type_synonym bytes = "8 word list"

datatype Conn = Conn nat
datatype Listener = Listener nat
datatype Port = Port nat
datatype Hook = Hook nat

text \<open>
  A Go \<^verbatim>\<open>error\<close>. \<^verbatim>\<open>io.EOF\<close> is one fixed error value, compared by identity in the connection
  worker; every other error is known to the code by its message only.
\<close>

datatype go_error = io_EOF | GoError string

fun Error :: "go_error \<Rightarrow> string" where
  "Error io_EOF = ''EOF''"
| "Error (GoError msg) = msg"

subsection \<open>Exceptions and references to them\<close>

text \<open>
  Modelled from the spec: the declaration of the type \<^verbatim>\<open>Exception\<close> and of the package's
  exception values is not in the two source files. The spec gives a closed set of codes
  with a distinguished success value: success, illegal function, illegal data address,
  illegal data value, slave/device failure, and similar protocol-defined codes.
\<close>

datatype Exception =
    Success
  | IllegalFunction
  | IllegalDataAddress
  | IllegalDataValue
  | SlaveDeviceFailure
  | OtherException nat

text \<open>
  A handler returns \<^verbatim>\<open>*Exception\<close>, a reference. \<open>Canonical e\<close> is the address of the
  package-level variable holding \<open>e\<close> (\<^verbatim>\<open>&Success\<close>, \<^verbatim>\<open>&IllegalFunction\<close>, ...);
  \<open>Allocated n e\<close> is the address of the \<open>n\<close>-th Exception value allocated elsewhere, which
  holds the code \<open>e\<close>. Two references are the same pointer exactly when they are equal as
  values of this type, so a reference to a fresh value never equals \<^verbatim>\<open>&Success\<close>, whatever
  code it holds. The nil reference is left out: the spec's handler signature returns an
  Exception, and what the frame does with nil is outside the two files.
\<close>

datatype ExceptionRef = Canonical Exception | Allocated nat Exception

fun deref :: "ExceptionRef \<Rightarrow> Exception" where
  "deref (Canonical e) = e"
| "deref (Allocated n e) = e"

subsection \<open>Frames\<close>

text \<open>
  Modelled from the spec: the interface \<^verbatim>\<open>Framer\<close> and its implementations are not in the
  two source files. The spec gives the capability set: get function code, get/set payload
  bytes, set exception (which must override any previously set payload), produce a
  header-preserving copy for building a response, serialise to wire bytes; and its
  glossary calls an exception "a failure code returned in place of a successful payload".
  A frame therefore carries a header, a function code and a body that is either a payload
  or an exception. The wire encoding is out of the spec's scope, so \<^verbatim>\<open>Bytes\<close> and the
  parser \<^verbatim>\<open>NewTCPFrame\<close> are parameters of the functions that call them.
\<close>

datatype body = Payload bytes | Exc Exception

record Framer =
  header :: bytes
  fcode :: "8 word"
  body :: body

text \<open>Modelled from the spec: \<^verbatim>\<open>Framer.GetFunction\<close>, the frame's function code.\<close>

definition GetFunction :: "Framer \<Rightarrow> 8 word" where
  "GetFunction f = fcode f"

text \<open>
  Modelled from the spec: \<^verbatim>\<open>Framer.Copy\<close>, the header-preserving copy. Frames are values
  here, so the copy is the frame itself; later changes to the copy leave the original
  as it was.
\<close>

definition Copy :: "Framer \<Rightarrow> Framer" where
  "Copy f = f"

text \<open>Modelled from the spec: \<^verbatim>\<open>Framer.SetData\<close>, which sets the payload bytes.\<close>

definition SetData :: "bytes \<Rightarrow> Framer \<Rightarrow> Framer" where
  "SetData data f = f\<lparr>body := Payload data\<rparr>"

text \<open>
  Modelled from the spec: \<^verbatim>\<open>Framer.SetException\<close>, which reads the code behind the reference
  and sets it on the frame, overriding any previously set payload.
\<close>

definition SetException :: "ExceptionRef \<Rightarrow> Framer \<Rightarrow> Framer" where
  "SetException exception f = f\<lparr>body := Exc (deref exception)\<rparr>"

text \<open>
  What a frame carries, as the spec speaks of it: its Exception (success when the body is
  a payload) and its payload (none when the body is an exception).
\<close>

definition Exception_of :: "Framer \<Rightarrow> Exception" where
  "Exception_of f = (case body f of Payload data \<Rightarrow> Success | Exc e \<Rightarrow> e)"

definition payload_of :: "Framer \<Rightarrow> bytes option" where
  "payload_of f = (case body f of Payload data \<Rightarrow> Some data | Exc e \<Rightarrow> None)"

subsection \<open>Server and Request\<close>

text \<open>
  A function value stored in the function table. The eight defaults are the package's own
  handlers, whose bodies are not in the two files; \<open>UserFunction n\<close> is a function
  given to \<^verbatim>\<open>RegisterFunctionHandler\<close> by the program that uses the package.
\<close>

datatype Handler =
    ReadCoils
  | ReadDiscreteInputs
  | ReadHoldingRegisters
  | ReadInputRegisters
  | WriteSingleCoil
  | WriteHoldingRegister
  | WriteMultipleCoils
  | WriteHoldingRegisters
  | UserFunction nat

datatype chan_state = Open | Closed

text \<open>
  \<^verbatim>\<open>type Server struct\<close>. The field \<^verbatim>\<open>function\<close>, a \<^verbatim>\<open>[256]\<close> array of function values
  indexed by \<^verbatim>\<open>uint8\<close>, is \<open>function_table\<close>: a nil entry is \<open>None\<close>.
  \<open>portsWG\<close> is the counter of the \<^verbatim>\<open>sync.WaitGroup\<close>; a channel field records whether
  the channel has been closed. A nil slice is the empty list.
\<close>

record Server =
  Debug :: bool
  listeners :: "Listener list"
  ports :: "Port list"
  portsWG :: nat
  portsCloseChan :: chan_state
  requestChan :: chan_state
  function_table :: "8 word \<Rightarrow> Handler option"
  DiscreteInputs :: bytes
  Coils :: bytes
  HoldingRegisters :: "16 word list"
  InputRegisters :: "16 word list"
  ConnectionAcceptedEvent :: "Hook list"
  ConnectionClosedEvent :: "Hook list"
  RequestReceivedEvent :: "Hook list"
  ResponseSentEvent :: "Hook list"
  ServerStartedEvent :: "Hook list"
  ServerStoppedEvent :: "Hook list"

text \<open>\<^verbatim>\<open>type Request struct\<close>: the connection and the Modbus frame.\<close>

record Request =
  conn :: Conn
  frame :: Framer

text \<open>
  What calling a function value does: given the server and the request frame it returns
  the response data, an exception reference and the server as the call leaves it (a
  handler works on \<^verbatim>\<open>*Server\<close>). The handlers' bodies are outside the two files, so the
  interpretation of function values is a parameter of the dispatcher. Handlers are taken
  to return.
\<close>

type_synonym Call = "Handler \<Rightarrow> Server \<Rightarrow> Framer \<Rightarrow> bytes \<times> ExceptionRef \<times> Server"

subsection \<open>Events\<close>

datatype task = Dispatcher | AcceptLoop Listener | ConnWorker Conn

datatype log_line =
    UnableToAccept go_error
  | ReadError go_error
  | BadPacket go_error
  | FailedToListen go_error

datatype event =
    Log log_line
  | Go task
  | ListenerClose Listener
  | PortClose Port
  | ConnClose Conn
  | ConnWrite Conn bytes
  | Handoff Request
  | FiredListener Hook Listener
  | FiredConn Hook Conn
  | FiredFrame Hook Conn Framer
  | StopSignal
  | BarrierPassed

text \<open>
  How a call that may block or panic ends: it returns a value, it blocks for good at the
  point the script of its environment runs out, or it panics.
\<close>

datatype 'a outcome = Returns 'a | Blocks | Panics string

section \<open>server.go\<close>

text \<open>
  \<^verbatim>\<open>NewServer\<close>: the four memory maps of 65536 entries, the eight default functions, the two
  channels, and the dispatcher started on its own goroutine.
\<close>

definition NewServer :: "Server \<times> event list" where
  "NewServer =
    (\<lparr>Debug = False, listeners = [], ports = [], portsWG = 0,
      portsCloseChan = Open, requestChan = Open,
      function_table = (\<lambda>c. None)
        (1 := Some ReadCoils, 2 := Some ReadDiscreteInputs,
         3 := Some ReadHoldingRegisters, 4 := Some ReadInputRegisters,
         5 := Some WriteSingleCoil, 6 := Some WriteHoldingRegister,
         15 := Some WriteMultipleCoils, 16 := Some WriteHoldingRegisters),
      DiscreteInputs = replicate 65536 0, Coils = replicate 65536 0,
      HoldingRegisters = replicate 65536 0, InputRegisters = replicate 65536 0,
      ConnectionAcceptedEvent = [], ConnectionClosedEvent = [],
      RequestReceivedEvent = [], ResponseSentEvent = [],
      ServerStartedEvent = [], ServerStoppedEvent = []\<rparr>,
     [Go Dispatcher])"

text \<open>\<^verbatim>\<open>RegisterFunctionHandler\<close>; the function value given may be nil (\<open>None\<close>).\<close>

definition RegisterFunctionHandler :: "Server \<Rightarrow> 8 word \<Rightarrow> Handler option \<Rightarrow> Server" where
  "RegisterFunctionHandler s funcCode function =
     s\<lparr>function_table := (function_table s)(funcCode := function)\<rparr>"

text \<open>
  \<^verbatim>\<open>handle\<close>: the response is a copy of the request frame; a registered function is called
  and its data set on the response, an empty entry gives \<^verbatim>\<open>&IllegalFunction\<close>; an
  exception reference other than \<^verbatim>\<open>&Success\<close> (a comparison of pointers) is then set on
  the response. The second component is the server as the function call leaves it.
\<close>

definition handle :: "Call \<Rightarrow> Server \<Rightarrow> Request \<Rightarrow> Framer \<times> Server" where
  "handle call s request =
    (let response = Copy (frame request);
         function = GetFunction (frame request);
         (response, exception, s') =
           (case function_table s function of
              Some h \<Rightarrow>
                (let (data, exception, s') = call h s (frame request)
                 in (SetData data response, exception, s'))
            | None \<Rightarrow> (response, Canonical IllegalFunction, s))
     in (if exception \<noteq> Canonical Success
         then SetException exception response
         else response, s'))"

text \<open>
  \<^verbatim>\<open>handler\<close>, the dispatcher loop, run on the requests it receives from the request
  channel, in the order it receives them. For each request: the request-received hooks,
  \<^verbatim>\<open>handle\<close>, the write of the serialised response on the request's connection (its result
  is ignored), the response-sent hooks. The loop has no exit: when the requests are
  used up the dispatcher blocks in the receive. A receive on a closed channel would give
  the nil request, whose first use panics. \<open>Bytes\<close> is \<^verbatim>\<open>Framer.Bytes\<close>.
\<close>

fun handler :: "Call \<Rightarrow> (Framer \<Rightarrow> bytes) \<Rightarrow> Server \<Rightarrow> Request list
    \<Rightarrow> unit outcome \<times> Server \<times> event list" where
  "handler call Bytes s [] =
    (if requestChan s = Closed then (Panics ''nil pointer dereference'', s, [])
     else (Blocks, s, []))"
| "handler call Bytes s (request # requests) =
    (if requestChan s = Closed then (Panics ''nil pointer dereference'', s, [])
     else
       (let received = map (\<lambda>h. FiredFrame h (conn request) (frame request))
                         (RequestReceivedEvent s);
            (response, s1) = handle call s request;
            written = ConnWrite (conn request) (Bytes response);
            sent = map (\<lambda>h. FiredFrame h (conn request) response) (ResponseSentEvent s1);
            (out, s2, later) = handler call Bytes s1 requests
        in (out, s2, received @ written # sent @ later)))"

text \<open>
  \<^verbatim>\<open>Close\<close> runs next to the goroutines of the serial ports, which leave on their own and
  count themselves out of \<^verbatim>\<open>portsWG\<close>, so it is a small machine: one step per statement,
  and \<^verbatim>\<open>portsWG.Wait()\<close> passes only when the counter is zero. The steps are
  \<^item> the loop over \<open>listeners\<close>: close the listener, then fire the server-stopped hooks
    for it;
  \<^item> \<^verbatim>\<open>close(s.portsCloseChan)\<close>, which panics on a channel already closed;
  \<^item> \<^verbatim>\<open>s.portsWG.Wait()\<close>;
  \<^item> the loop over \<open>ports\<close>: close the port.
\<close>

datatype Close_pc = AtListeners | AtSignal | AtWait | AtPorts | HasReturned | HasPanicked

type_synonym Close_state = "Close_pc \<times> Server \<times> event list"

definition Close_listeners :: "Server \<Rightarrow> event list" where
  "Close_listeners s =
     concat (map (\<lambda>listen. ListenerClose listen
                    # map (\<lambda>h. FiredListener h listen) (ServerStoppedEvent s))
                 (listeners s))"

definition Close_ports :: "Server \<Rightarrow> event list" where
  "Close_ports s = map PortClose (ports s)"

fun Close_step :: "Close_state \<Rightarrow> Close_state" where
  "Close_step (AtListeners, s, t) = (AtSignal, s, t @ Close_listeners s)"
| "Close_step (AtSignal, s, t) =
    (if portsCloseChan s = Closed then (HasPanicked, s, t)
     else (AtWait, s\<lparr>portsCloseChan := Closed\<rparr>, t @ [StopSignal]))"
| "Close_step (AtWait, s, t) =
    (if portsWG s = 0 then (AtPorts, s, t @ [BarrierPassed]) else (AtWait, s, t))"
| "Close_step (AtPorts, s, t) = (HasReturned, s, t @ Close_ports s)"
| "Close_step (HasReturned, s, t) = (HasReturned, s, t)"
| "Close_step (HasPanicked, s, t) = (HasPanicked, s, t)"

text \<open>
  Modelled from the spec: the goroutines of the serial ports are not in the two source
  files. The spec's counted barrier is "decremented by each on exit": a port worker that
  leaves takes one off \<open>portsWG\<close> (\<^verbatim>\<open>sync.WaitGroup.Done\<close>).
\<close>

definition PortWorker_exit :: "Server \<Rightarrow> Server" where
  "PortWorker_exit s = (if 0 < portsWG s then s\<lparr>portsWG := portsWG s - 1\<rparr> else s)"

text \<open>
  A schedule says who moves next: the goroutine that called \<^verbatim>\<open>Close\<close>, or a port worker
  that leaves. \<open>Close_run\<close> runs a schedule from a state; \<open>Close_call s\<close> is the state
  in which \<^verbatim>\<open>Close\<close> has just been called on \<open>s\<close>.
\<close>

datatype move = CloseMoves | PortWorkerLeaves

fun Close_move :: "move \<Rightarrow> Close_state \<Rightarrow> Close_state" where
  "Close_move CloseMoves st = Close_step st"
| "Close_move PortWorkerLeaves (pc, s, t) = (pc, PortWorker_exit s, t)"

fun Close_run :: "move list \<Rightarrow> Close_state \<Rightarrow> Close_state" where
  "Close_run [] st = st"
| "Close_run (m # ms) st = Close_run ms (Close_move m st)"

definition Close_call :: "Server \<Rightarrow> Close_state" where
  "Close_call s = (AtListeners, s, [])"

section \<open>servetcp.go\<close>

text \<open>\<^verbatim>\<open>strings.Contains\<close>: \<open>substr\<close> occurs in \<open>s\<close> as a contiguous run.\<close>

fun Contains :: "string \<Rightarrow> string \<Rightarrow> bool" where
  "Contains [] substr = (substr = [])"
| "Contains (c # s) substr = (prefix substr (c # s) \<or> Contains s substr)"

text \<open>
  What one call of \<^verbatim>\<open>conn.Read\<close> gives: the bytes read and the error. The worker looks at
  the error first and drops the bytes of a read that failed.
\<close>

datatype read_result = Read bytes "go_error option"

text \<open>The deferred function of a connection worker: close the connection, then the
  connection-closed hooks.\<close>

definition deferred :: "Server \<Rightarrow> Conn \<Rightarrow> event list" where
  "deferred s c = ConnClose c # map (\<lambda>h. FiredConn h c) (ConnectionClosedEvent s)"

text \<open>
  The goroutine \<^verbatim>\<open>accept\<close> starts for a connection, run on the results of its successive
  reads. A failed read, or bytes that \<^verbatim>\<open>NewTCPFrame\<close> does not parse, end the worker; a
  parsed frame is handed to the dispatcher on the request channel (a send on a closed
  channel panics) and the worker reads again. It blocks in \<^verbatim>\<open>Read\<close> once the reads are used
  up. The deferred function runs however the worker ends.
\<close>

fun worker :: "(bytes \<Rightarrow> go_error + Framer) \<Rightarrow> Server \<Rightarrow> Conn \<Rightarrow> read_result list
    \<Rightarrow> unit outcome \<times> event list" where
  "worker NewTCPFrame s c [] = (Blocks, [])"
| "worker NewTCPFrame s c (Read packet (Some err) # reads) =
    (Returns (), (if err \<noteq> io_EOF then [Log (ReadError err)] else []) @ deferred s c)"
| "worker NewTCPFrame s c (Read packet None # reads) =
    (case NewTCPFrame packet of
       Inl err \<Rightarrow> (Returns (), Log (BadPacket err) # deferred s c)
     | Inr fr \<Rightarrow>
         (if requestChan s = Closed
          then (Panics ''send on closed channel'', deferred s c)
          else (case worker NewTCPFrame s c reads of
                  (out, later) \<Rightarrow> (out, Handoff \<lparr>conn = c, frame = fr\<rparr> # later))))"

text \<open>What one call of \<^verbatim>\<open>listen.Accept\<close> gives.\<close>

datatype accept_result = Accepted Conn | AcceptFailed go_error

text \<open>
  \<^verbatim>\<open>accept\<close>, run on the results of the successive calls of \<^verbatim>\<open>listen.Accept\<close>. An error
  whose text contains "use of closed network connection" ends the loop with a nil error
  and no log line; any other error is logged and returned. An accepted connection gets
  the connection-accepted hooks and a worker of its own.
\<close>

fun accept :: "Server \<Rightarrow> Listener \<Rightarrow> accept_result list
    \<Rightarrow> go_error option outcome \<times> event list" where
  "accept s listen [] = (Blocks, [])"
| "accept s listen (AcceptFailed err # results) =
    (if Contains (Error err) ''use of closed network connection''
     then (Returns None, [])
     else (Returns (Some err), [Log (UnableToAccept err)]))"
| "accept s listen (Accepted c # results) =
    (case accept s listen results of
       (out, later) \<Rightarrow>
         (out, map (\<lambda>h. FiredConn h c) (ConnectionAcceptedEvent s)
               @ Go (ConnWorker c) # later))"

text \<open>
  \<^verbatim>\<open>ListenTCP\<close>. \<open>net_Listen\<close> is \<^verbatim>\<open>net.Listen\<close>, the bind: it gives an error or a
  listener. The result is the error returned, the server afterwards and the events.
\<close>

definition ListenTCP :: "(string \<Rightarrow> string \<Rightarrow> go_error + Listener) \<Rightarrow> Server \<Rightarrow> string
    \<Rightarrow> go_error option \<times> Server \<times> event list" where
  "ListenTCP net_Listen s addressPort =
    (case net_Listen ''tcp'' addressPort of
       Inl err \<Rightarrow> (Some err, s, [Log (FailedToListen err)])
     | Inr listen \<Rightarrow>
         (None, s\<lparr>listeners := listeners s @ [listen]\<rparr>,
          map (\<lambda>h. FiredListener h listen) (ServerStartedEvent s)
            @ [Go (AcceptLoop listen)]))"

text \<open>Projections of an event list.\<close>

fun handoffs :: "event list \<Rightarrow> Request list" where
  "handoffs [] = []"
| "handoffs (Handoff r # es) = r # handoffs es"
| "handoffs (e # es) = handoffs es"

fun writes_on :: "Conn \<Rightarrow> event list \<Rightarrow> bytes list" where
  "writes_on c [] = []"
| "writes_on c (ConnWrite c' b # es) = (if c' = c then b # writes_on c es else writes_on c es)"
| "writes_on c (e # es) = writes_on c es"

section \<open>Auxiliary definitions for the statements\<close>

text \<open>
  What a read gives the worker: the frame when the read succeeded and the bytes parse,
  nothing when the read failed or the bytes do not parse; and the log line of a read that
  gives nothing (a clean end of stream is not logged).
\<close>

fun parsed :: "(bytes \<Rightarrow> go_error + Framer) \<Rightarrow> read_result \<Rightarrow> Framer option" where
  "parsed NewTCPFrame (Read packet (Some err)) = None"
| "parsed NewTCPFrame (Read packet None) =
    (case NewTCPFrame packet of Inl err \<Rightarrow> None | Inr fr \<Rightarrow> Some fr)"

fun failure_log :: "(bytes \<Rightarrow> go_error + Framer) \<Rightarrow> read_result \<Rightarrow> event list" where
  "failure_log NewTCPFrame (Read packet (Some err)) =
     (if err \<noteq> io_EOF then [Log (ReadError err)] else [])"
| "failure_log NewTCPFrame (Read packet None) =
    (case NewTCPFrame packet of Inl err \<Rightarrow> [Log (BadPacket err)] | Inr fr \<Rightarrow> [])"

text \<open>
  The shutdown sequence in the spec's words: for each recorded listener, close it and fire
  the server-stopped hooks for it; signal the port workers to stop; block until the
  barrier confirms every worker has left; close each port.
\<close>

definition shutdown_sequence :: "Server \<Rightarrow> event list" where
  "shutdown_sequence s =
     concat (map (\<lambda>l. [ListenerClose l] @ map (\<lambda>h. FiredListener h l) (ServerStoppedEvent s))
                 (listeners s))
     @ [StopSignal] @ [BarrierPassed] @ map PortClose (ports s)"

text \<open>
  \<open>untouched s0 s\<close>: the two servers differ at most in \<open>portsWG\<close> and \<open>portsCloseChan\<close>.
  \<open>Close_inv s0\<close> is the invariant of the machine started on \<open>s0\<close>: the events so far at
  each statement of \<^verbatim>\<open>Close\<close>.
\<close>

definition untouched :: "Server \<Rightarrow> Server \<Rightarrow> bool" where
  "untouched s0 s \<longleftrightarrow>
     s\<lparr>portsWG := 0, portsCloseChan := Open\<rparr> = s0\<lparr>portsWG := 0, portsCloseChan := Open\<rparr>"

fun Close_inv :: "Server \<Rightarrow> Close_state \<Rightarrow> bool" where
  "Close_inv s0 (pc, s, t) \<longleftrightarrow>
     untouched s0 s \<and> portsWG s \<le> portsWG s0 \<and>
     (case pc of
        AtListeners \<Rightarrow> t = [] \<and> portsCloseChan s = portsCloseChan s0
      | AtSignal \<Rightarrow> t = Close_listeners s0 \<and> portsCloseChan s = portsCloseChan s0
      | AtWait \<Rightarrow> t = Close_listeners s0 @ [StopSignal] \<and> portsCloseChan s = Closed
      | AtPorts \<Rightarrow> t = Close_listeners s0 @ [StopSignal, BarrierPassed]
          \<and> portsCloseChan s = Closed \<and> portsWG s = 0
      | HasReturned \<Rightarrow> t = shutdown_sequence s0 \<and> portsCloseChan s = Closed \<and> portsWG s = 0
      | HasPanicked \<Rightarrow> t = Close_listeners s0 \<and> portsCloseChan s0 = Closed)"

section \<open>Dispatch of one request\<close>

lemma handle_Some:
  assumes "function_table s (GetFunction (frame request)) = Some h"
    and "call h s (frame request) = (data, exception, s')"
  shows "handle call s request =
    (if exception \<noteq> Canonical Success
     then SetException exception (SetData data (Copy (frame request)))
     else SetData data (Copy (frame request)), s')"
  using assms by (simp add: handle_def)

lemma handle_None:
  assumes "function_table s (GetFunction (frame request)) = None"
  shows "handle call s request =
    (SetException (Canonical IllegalFunction) (Copy (frame request)), s)"
  using assms by (simp add: handle_def)

lemma payload_of_SetData: "payload_of (SetData data f) = Some data"
  by (simp add: payload_of_def SetData_def)

lemma Exception_of_SetData: "Exception_of (SetData data f) = Success"
  by (simp add: Exception_of_def SetData_def)

lemma payload_of_SetException: "payload_of (SetException exception f) = None"
  by (simp add: payload_of_def SetException_def)

lemma Exception_of_SetException: "Exception_of (SetException exception f) = deref exception"
  by (simp add: Exception_of_def SetException_def)

lemma body_SetException: "body (SetException exception f) = Exc (deref exception)"
  by (simp add: SetException_def)

text \<open>
  C1. For every function code with a registered handler \<open>H\<close>, dispatching a request frame
  with that function code calls \<open>H\<close> on the server and the request frame; when \<open>H\<close> returns
  \<^verbatim>\<open>&Success\<close>, the response is the copy of the request with the data of \<open>H\<close> set on it, so
  its Exception is success and its payload is the payload \<open>H\<close> returned. The server is
  left as the call of \<open>H\<close> left it.
\<close>

theorem handle_registered_success:
  assumes "function_table s (GetFunction (frame request)) = Some H"
    and "call H s (frame request) = (data, Canonical Success, s')"
  shows "handle call s request = (SetData data (Copy (frame request)), s')
    \<and> Exception_of (fst (handle call s request)) = Success
    \<and> payload_of (fst (handle call s request)) = Some data"
  using handle_Some [where call = call, OF assms]
  by (simp add: payload_of_SetData Exception_of_SetData)

theorem handle_registered_success_witness:
  "function_table (fst NewServer) (GetFunction \<lparr>header = [0, 1], fcode = 3, body = Payload [0, 10, 0, 1]\<rparr>)
      = Some ReadHoldingRegisters
    \<and> Exception_of (fst (handle (\<lambda>h s f. ([2, 18, 52], Canonical Success, s)) (fst NewServer)
        \<lparr>conn = Conn 0, frame = \<lparr>header = [0, 1], fcode = 3, body = Payload [0, 10, 0, 1]\<rparr>\<rparr>)) = Success
    \<and> payload_of (fst (handle (\<lambda>h s f. ([2, 18, 52], Canonical Success, s)) (fst NewServer)
        \<lparr>conn = Conn 0, frame = \<lparr>header = [0, 1], fcode = 3, body = Payload [0, 10, 0, 1]\<rparr>\<rparr>))
      = Some [2, 18, 52]"
proof -
  let ?fr = "\<lparr>header = [0, 1], fcode = 3, body = Payload [0, 10, 0, 1]\<rparr>"
  let ?rq = "\<lparr>conn = Conn 0, frame = ?fr\<rparr>"
  let ?call = "\<lambda>(h::Handler) (s::Server) (f::Framer). ([2, 18, 52] :: bytes, Canonical Success, s)"
  have tab: "function_table (fst NewServer) (GetFunction (frame ?rq)) = Some ReadHoldingRegisters"
    by (simp add: NewServer_def GetFunction_def)
  have run: "?call ReadHoldingRegisters (fst NewServer) (frame ?rq)
      = ([2, 18, 52], Canonical Success, fst NewServer)"
    by simp
  from handle_registered_success [where call = ?call, OF tab run] tab show ?thesis
    by (simp add: payload_of_SetData Exception_of_SetData)
qed

text \<open>
  C2. For every request frame whose function code has no entry in the function table,
  dispatch sets \<^verbatim>\<open>&IllegalFunction\<close> on the copy of the request and never sets data on it:
  the response has Exception = illegal function and carries no payload. No function is
  called, so the server is unchanged.
\<close>

theorem handle_unregistered:
  assumes "function_table s (GetFunction (frame request)) = None"
  shows "handle call s request =
      (SetException (Canonical IllegalFunction) (Copy (frame request)), s)
    \<and> Exception_of (fst (handle call s request)) = IllegalFunction
    \<and> payload_of (fst (handle call s request)) = None"
  using handle_None [where call = call, OF assms]
  by (simp add: payload_of_SetException Exception_of_SetException)

theorem handle_unregistered_witness:
  "function_table (fst NewServer)
      (GetFunction \<lparr>header = [0, 1], fcode = 7, body = Payload [9, 9]\<rparr>) = None
    \<and> Exception_of (fst (handle (\<lambda>h s f. ([2, 18, 52], Canonical Success, s)) (fst NewServer)
        \<lparr>conn = Conn 0, frame = \<lparr>header = [0, 1], fcode = 7, body = Payload [9, 9]\<rparr>\<rparr>))
      = IllegalFunction
    \<and> payload_of (fst (handle (\<lambda>h s f. ([2, 18, 52], Canonical Success, s)) (fst NewServer)
        \<lparr>conn = Conn 0, frame = \<lparr>header = [0, 1], fcode = 7, body = Payload [9, 9]\<rparr>\<rparr>))
      = None"
proof -
  let ?fr = "\<lparr>header = [0, 1], fcode = 7, body = Payload [9, 9]\<rparr>"
  let ?rq = "\<lparr>conn = Conn 0, frame = ?fr\<rparr>"
  let ?call = "\<lambda>(h::Handler) (s::Server) (f::Framer). ([2, 18, 52] :: bytes, Canonical Success, s)"
  have tab: "function_table (fst NewServer) (GetFunction (frame ?rq)) = None"
    by (simp add: NewServer_def GetFunction_def)
  from handle_unregistered [where call = ?call, OF tab] tab show ?thesis
    by (simp add: payload_of_SetException Exception_of_SetException)
qed

text \<open>
  C3. For every request whose handler returns a non-success exception, the dispatcher
  first sets the handler's data and then sets that exception on the response, and the
  response carries the exception and not the handler's payload: setting an exception on
  any frame leaves it without payload. When the handler returns \<^verbatim>\<open>&Success\<close>, the response
  carries the computed payload.
\<close>

theorem handle_exception_overrides_payload:
  assumes "function_table s (GetFunction (frame request)) = Some H"
    and "call H s (frame request) = (data, exception, s')"
  shows "(deref exception \<noteq> Success \<longrightarrow>
        fst (handle call s request) =
          SetException exception (SetData data (Copy (frame request)))
      \<and> Exception_of (fst (handle call s request)) = deref exception
      \<and> body (fst (handle call s request)) = Exc (deref exception)
      \<and> payload_of (fst (handle call s request)) = None)
    \<and> (exception = Canonical Success \<longrightarrow>
        fst (handle call s request) = SetData data (Copy (frame request))
      \<and> payload_of (fst (handle call s request)) = Some data)
    \<and> (\<forall>e d f. payload_of (SetException e (SetData d f)) = None
        \<and> Exception_of (SetException e (SetData d f)) = deref e)"
proof -
  have ne: "exception \<noteq> Canonical Success" if "deref exception \<noteq> Success"
    using that by (cases exception) auto
  show ?thesis
    using handle_Some [where call = call, OF assms] ne
    by (simp add: payload_of_SetException Exception_of_SetException
        body_SetException payload_of_SetData)
qed

theorem handle_exception_overrides_payload_witness:
  "deref (Canonical IllegalDataValue) \<noteq> Success
    \<and> Exception_of (fst (handle (\<lambda>h s f. ([7, 7], Canonical IllegalDataValue, s)) (fst NewServer)
        \<lparr>conn = Conn 0, frame = \<lparr>header = [0, 1], fcode = 6, body = Payload [0, 10, 18, 52]\<rparr>\<rparr>))
      = IllegalDataValue
    \<and> payload_of (fst (handle (\<lambda>h s f. ([7, 7], Canonical IllegalDataValue, s)) (fst NewServer)
        \<lparr>conn = Conn 0, frame = \<lparr>header = [0, 1], fcode = 6, body = Payload [0, 10, 18, 52]\<rparr>\<rparr>))
      = None"
proof -
  let ?fr = "\<lparr>header = [0, 1], fcode = 6, body = Payload [0, 10, 18, 52]\<rparr>"
  let ?rq = "\<lparr>conn = Conn 0, frame = ?fr\<rparr>"
  let ?call = "\<lambda>(h::Handler) (s::Server) (f::Framer). ([7, 7] :: bytes, Canonical IllegalDataValue, s)"
  have tab: "function_table (fst NewServer) (GetFunction (frame ?rq)) = Some WriteHoldingRegister"
    by (simp add: NewServer_def GetFunction_def)
  have run: "?call WriteHoldingRegister (fst NewServer) (frame ?rq)
      = ([7, 7], Canonical IllegalDataValue, fst NewServer)"
    by simp
  from handle_exception_overrides_payload [where call = ?call, OF tab run] show ?thesis
    by simp
qed

text \<open>
  C9. Success is decided by pointer identity with \<^verbatim>\<open>&Success\<close>. A handler that returns a
  reference to a freshly allocated exception holding the success code is treated as a
  failure: that exception is set on the response after the handler's data, so the
  response body is the (success-coded) exception and the payload is gone.
\<close>

theorem handle_fresh_success_is_failure:
  assumes "function_table s (GetFunction (frame request)) = Some H"
    and "call H s (frame request) = (data, Allocated n Success, s')"
  shows "handle call s request =
      (SetException (Allocated n Success) (SetData data (Copy (frame request))), s')
    \<and> body (fst (handle call s request)) = Exc Success
    \<and> payload_of (fst (handle call s request)) = None
    \<and> fst (handle call s request) \<noteq> SetData data (Copy (frame request))"
proof -
  have "body (SetException (Allocated n Success) (SetData data (Copy (frame request))))
      \<noteq> body (SetData data (Copy (frame request)))"
    by (simp add: SetException_def SetData_def)
  then have "SetException (Allocated n Success) (SetData data (Copy (frame request)))
      \<noteq> SetData data (Copy (frame request))"
    by metis
  then show ?thesis
    using handle_Some [where call = call, OF assms]
    by (simp add: payload_of_SetException body_SetException)
qed

theorem handle_fresh_success_is_failure_witness:
  "function_table (fst NewServer)
      (GetFunction \<lparr>header = [0, 1], fcode = 3, body = Payload [0, 10, 0, 1]\<rparr>)
      = Some ReadHoldingRegisters
    \<and> body (fst (handle (\<lambda>h s f. ([2, 18, 52], Allocated 0 Success, s)) (fst NewServer)
        \<lparr>conn = Conn 0, frame = \<lparr>header = [0, 1], fcode = 3, body = Payload [0, 10, 0, 1]\<rparr>\<rparr>))
      = Exc Success
    \<and> payload_of (fst (handle (\<lambda>h s f. ([2, 18, 52], Allocated 0 Success, s)) (fst NewServer)
        \<lparr>conn = Conn 0, frame = \<lparr>header = [0, 1], fcode = 3, body = Payload [0, 10, 0, 1]\<rparr>\<rparr>))
      = None"
proof -
  let ?fr = "\<lparr>header = [0, 1], fcode = 3, body = Payload [0, 10, 0, 1]\<rparr>"
  let ?rq = "\<lparr>conn = Conn 0, frame = ?fr\<rparr>"
  let ?call = "\<lambda>(h::Handler) (s::Server) (f::Framer). ([2, 18, 52] :: bytes, Allocated 0 Success, s)"
  have tab: "function_table (fst NewServer) (GetFunction (frame ?rq)) = Some ReadHoldingRegisters"
    by (simp add: NewServer_def GetFunction_def)
  have run: "?call ReadHoldingRegisters (fst NewServer) (frame ?rq)
      = ([2, 18, 52], Allocated 0 Success, fst NewServer)"
    by simp
  from handle_fresh_success_is_failure [where call = ?call, OF tab run] tab show ?thesis
    by (simp add: payload_of_SetException body_SetException)
qed

section \<open>The connection worker\<close>

lemma worker_failed_read:
  assumes "parsed P bad = None"
  shows "worker P s c (bad # rest) = (Returns (), failure_log P bad @ deferred s c)"
proof (cases bad)
  case (Read packet err)
  with assms show ?thesis
    by (cases err) (auto split: sum.splits)
qed

lemma worker_good_reads:
  assumes "\<forall>r \<in> set good. parsed P r \<noteq> None" and "requestChan s = Open"
  shows "worker P s c (good @ rest) =
    (fst (worker P s c rest),
     map (\<lambda>r. Handoff \<lparr>conn = c, frame = the (parsed P r)\<rparr>) good @ snd (worker P s c rest))"
  using assms(1)
proof (induction good)
  case Nil
  show ?case by simp
next
  case (Cons r good)
  obtain packet err where r: "r = Read packet err" by (cases r)
  from Cons.prems r obtain fr where fr: "err = None" "P packet = Inr fr"
    by (cases err; cases "P packet") auto
  from Cons have IH: "worker P s c (good @ rest) =
    (fst (worker P s c rest),
     map (\<lambda>r. Handoff \<lparr>conn = c, frame = the (parsed P r)\<rparr>) good @ snd (worker P s c rest))"
    by simp
  show ?case
    using assms(2) by (simp add: r fr IH)
qed

lemma handoffs_append: "handoffs (xs @ ys) = handoffs xs @ handoffs ys"
  by (induction xs rule: handoffs.induct) simp_all

lemma handoffs_map_Handoff: "handoffs (map (\<lambda>r. Handoff (f r)) rs) = map f rs"
  by (induction rs) simp_all

lemma handoffs_FiredConn: "handoffs (map (\<lambda>h. FiredConn h c) hs) = []"
  by (induction hs) simp_all

lemma handoffs_deferred: "handoffs (deferred s c) = []"
  by (simp add: deferred_def handoffs_FiredConn)

lemma handoffs_failure_log: "handoffs (failure_log P r) = []"
  by (cases "(P, r)" rule: failure_log.cases) (auto split: sum.splits)

lemma writes_on_append: "writes_on c (xs @ ys) = writes_on c xs @ writes_on c ys"
  by (induction c xs rule: writes_on.induct) simp_all

lemma writes_on_FiredConn: "writes_on c (map (\<lambda>h. FiredConn h c') hs) = []"
  by (induction hs) simp_all

lemma writes_on_FiredFrame: "writes_on c (map (\<lambda>h. FiredFrame h c' f) hs) = []"
  by (induction hs) simp_all

lemma writes_on_Handoff: "writes_on c (map (\<lambda>r. Handoff (f r)) rs) = []"
  by (induction rs) simp_all

lemma writes_on_deferred: "writes_on c' (deferred s c) = []"
  by (simp add: deferred_def writes_on_FiredConn)

lemma writes_on_failure_log: "writes_on c (failure_log P r) = []"
  by (cases "(P, r)" rule: failure_log.cases) (auto split: sum.splits)

lemma handler_writes_only_to_requesters:
  "c \<notin> conn ` set requests \<Longrightarrow> writes_on c (snd (snd (handler call Bytes s requests))) = []"
proof (induction requests arbitrary: s)
  case Nil
  show ?case by simp
next
  case (Cons request requests)
  then have "c \<noteq> conn request" and "c \<notin> conn ` set requests" by auto
  with Cons.IH show ?case
    by (simp add: case_prod_beta Let_def writes_on_append writes_on_FiredFrame)
qed

text \<open>
  C5. A connection worker whose read fails (a clean end of stream included) or whose bytes
  do not parse, after any number of reads that went well, returns; the failing read hands
  no request to the dispatcher, so the requests handed off are exactly those of the reads
  before it, and the worker itself writes nothing on any connection. When the first read
  fails nothing is handed off and the dispatcher, given nothing, writes nothing; and the
  dispatcher never writes on a connection that none of its requests came from. So neither
  a read error nor a parse failure produces a response on that connection.
\<close>

theorem worker_failure_sends_nothing:
  assumes "\<forall>r \<in> set good. parsed NewTCPFrame r \<noteq> None"
    and "parsed NewTCPFrame bad = None"
    and "requestChan s = Open"
  shows "worker NewTCPFrame s c (good @ bad # rest) =
      (Returns (),
       map (\<lambda>fr. Handoff \<lparr>conn = c, frame = fr\<rparr>) (List.map_filter (parsed NewTCPFrame) good)
         @ failure_log NewTCPFrame bad @ deferred s c)
    \<and> length (List.map_filter (parsed NewTCPFrame) good) = length good
    \<and> handoffs (snd (worker NewTCPFrame s c (good @ bad # rest))) =
        map (\<lambda>fr. \<lparr>conn = c, frame = fr\<rparr>) (List.map_filter (parsed NewTCPFrame) good)
    \<and> writes_on c' (snd (worker NewTCPFrame s c (good @ bad # rest))) = []
    \<and> handoffs (snd (worker NewTCPFrame s c (bad # rest))) = []
    \<and> handler call Bytes s (handoffs (snd (worker NewTCPFrame s c (bad # rest)))) = (Blocks, s, [])
    \<and> (\<forall>requests. c \<notin> conn ` set requests \<longrightarrow>
          writes_on c (snd (snd (handler call Bytes s' requests))) = [])"
proof -
  have mf: "List.map_filter (parsed NewTCPFrame) good = map (\<lambda>r. the (parsed NewTCPFrame r)) good"
    using assms(1) by (induction good) (auto simp: List.map_filter_simps)
  have w: "worker NewTCPFrame s c (good @ bad # rest) =
      (Returns (),
       map (\<lambda>fr. Handoff \<lparr>conn = c, frame = fr\<rparr>) (List.map_filter (parsed NewTCPFrame) good)
         @ failure_log NewTCPFrame bad @ deferred s c)"
    using worker_good_reads [OF assms(1) assms(3)] worker_failed_read [OF assms(2)]
    by (simp add: mf comp_def)
  have w0: "worker NewTCPFrame s c (bad # rest) =
      (Returns (), failure_log NewTCPFrame bad @ deferred s c)"
    by (rule worker_failed_read [OF assms(2)])
  have h0: "handoffs (snd (worker NewTCPFrame s c (bad # rest))) = []"
    by (simp add: w0 handoffs_append handoffs_failure_log handoffs_deferred)
  have len: "length (List.map_filter (parsed NewTCPFrame) good) = length good"
    by (simp add: mf)
  show ?thesis
    using assms(3) len
    by (simp add: w h0 handoffs_append handoffs_failure_log handoffs_deferred
        handoffs_map_Handoff writes_on_append writes_on_Handoff writes_on_failure_log
        writes_on_deferred handler_writes_only_to_requesters)
qed

theorem worker_failure_sends_nothing_witness:
  "worker (\<lambda>p. if p = [] then Inl (GoError ''packet too short'')
                 else Inr \<lparr>header = [], fcode = 3, body = Payload p\<rparr>)
      (fst NewServer) (Conn 1) ([Read [7] None] @ Read [] (Some io_EOF) # [Read [8] None])
      = (Returns (),
         [Handoff \<lparr>conn = Conn 1, frame = \<lparr>header = [], fcode = 3, body = Payload [7]\<rparr>\<rparr>,
          ConnClose (Conn 1)])
    \<and> worker (\<lambda>p. if p = [] then Inl (GoError ''packet too short'')
                 else Inr \<lparr>header = [], fcode = 3, body = Payload p\<rparr>)
      (fst NewServer) (Conn 1) ([] @ Read [] None # [Read [8] None])
      = (Returns (), [Log (BadPacket (GoError ''packet too short'')), ConnClose (Conn 1)])"
proof -
  let ?P = "\<lambda>p::bytes. if p = [] then Inl (GoError ''packet too short'')
                 else Inr \<lparr>header = [], fcode = 3, body = Payload p\<rparr>"
  have good: "\<forall>r \<in> set [Read [7] None]. parsed ?P r \<noteq> None"
    by simp
  have none: "\<forall>r \<in> set ([] :: read_result list). parsed ?P r \<noteq> None"
    by simp
  have bad1: "parsed ?P (Read [] (Some io_EOF)) = None"
    by simp
  have bad2: "parsed ?P (Read [] None) = None"
    by simp
  have chan: "requestChan (fst NewServer) = Open"
    by (simp add: NewServer_def)
  from worker_failure_sends_nothing [where NewTCPFrame = ?P, OF good bad1 chan,
      of "Conn 1" "[Read [8] None]"]
    worker_failure_sends_nothing [where NewTCPFrame = ?P, OF none bad2 chan,
      of "Conn 1" "[Read [8] None]"]
  show ?thesis
    by (simp add: deferred_def NewServer_def)
qed

section \<open>The accept loop and ListenTCP\<close>

lemma Contains_sublist: "Contains s substr = sublist substr s"
  by (induction s) (simp_all add: sublist_Cons_right)

lemma Contains_iff: "Contains s substr \<longleftrightarrow> (\<exists>before after. s = before @ substr @ after)"
  by (simp add: Contains_sublist sublist_def)

lemma accept_Accepted_prefix:
  "accept s listen (map Accepted cs @ results) =
     (fst (accept s listen results),
      concat (map (\<lambda>c. map (\<lambda>h. FiredConn h c) (ConnectionAcceptedEvent s)
                        @ [Go (ConnWorker c)]) cs)
        @ snd (accept s listen results))"
  by (induction cs) (simp_all add: case_prod_beta)

text \<open>
  C6. The accept loop recognises the error of a closed listener by its text: an error
  whose message contains "use of closed network connection" (the text Go's net package
  gives the error of an operation on a closed listener) ends the loop with a nil error
  and without a log line, after any number of accepted connections. Any other accept
  error ends the loop as well, is logged and is returned.
\<close>

theorem accept_closed_listener_ends_quietly:
  "(Contains (Error err) ''use of closed network connection'' \<longrightarrow>
      accept s listen (map Accepted cs @ AcceptFailed err # results) =
        (Returns None,
         concat (map (\<lambda>c. map (\<lambda>h. FiredConn h c) (ConnectionAcceptedEvent s)
                           @ [Go (ConnWorker c)]) cs)))
   \<and> (\<not> Contains (Error err) ''use of closed network connection'' \<longrightarrow>
      accept s listen (map Accepted cs @ AcceptFailed err # results) =
        (Returns (Some err),
         concat (map (\<lambda>c. map (\<lambda>h. FiredConn h c) (ConnectionAcceptedEvent s)
                           @ [Go (ConnWorker c)]) cs)
           @ [Log (UnableToAccept err)]))
   \<and> (Contains (Error err) ''use of closed network connection'' \<longleftrightarrow>
        (\<exists>before after. Error err = before @ ''use of closed network connection'' @ after))"
  by (simp add: accept_Accepted_prefix Contains_iff)

theorem accept_closed_listener_ends_quietly_witness:
  "accept (fst NewServer) (Listener 1)
      (map Accepted [Conn 1]
        @ AcceptFailed (GoError ''accept tcp [::]:1502: use of closed network connection'') # [])
      = (Returns None, [Go (ConnWorker (Conn 1))])
    \<and> accept (fst NewServer) (Listener 1)
      (map Accepted [Conn 1]
        @ AcceptFailed (GoError ''accept tcp [::]:1502: too many open files'') # [])
      = (Returns (Some (GoError ''accept tcp [::]:1502: too many open files'')),
         [Go (ConnWorker (Conn 1)),
          Log (UnableToAccept (GoError ''accept tcp [::]:1502: too many open files''))])"
proof -
  have closed: "Contains (Error (GoError ''accept tcp [::]:1502: use of closed network connection''))
      ''use of closed network connection''"
    by simp
  have other: "\<not> Contains (Error (GoError ''accept tcp [::]:1502: too many open files''))
      ''use of closed network connection''"
    by simp
  from accept_closed_listener_ends_quietly
      [of "GoError ''accept tcp [::]:1502: use of closed network connection''"
          "fst NewServer" "Listener 1" "[Conn 1]" "[]"]
    accept_closed_listener_ends_quietly
      [of "GoError ''accept tcp [::]:1502: too many open files''"
          "fst NewServer" "Listener 1" "[Conn 1]" "[]"]
    closed other
  show ?thesis
    by (simp add: NewServer_def)
qed

text \<open>
  C7. When the bind fails, \<^verbatim>\<open>ListenTCP\<close> returns the error with the server as it was; its only
  effect is the log line: no listener recorded, no hook fired, no accept loop started.
  When the bind succeeds it fires the server-started hooks in the order of their list,
  appends the listener to \<open>listeners\<close>, starts the accept loop on a goroutine and
  returns no error.
\<close>

theorem ListenTCP_bind_failure_and_success:
  "(net_Listen ''tcp'' addressPort = Inl err \<longrightarrow>
      ListenTCP net_Listen s addressPort = (Some err, s, [Log (FailedToListen err)]))
   \<and> (net_Listen ''tcp'' addressPort = Inr listen \<longrightarrow>
      ListenTCP net_Listen s addressPort =
        (None, s\<lparr>listeners := listeners s @ [listen]\<rparr>,
         map (\<lambda>h. FiredListener h listen) (ServerStartedEvent s) @ [Go (AcceptLoop listen)]))"
  by (simp add: ListenTCP_def)

theorem ListenTCP_bind_failure_and_success_witness:
  "ListenTCP (\<lambda>network address. if address = '':1502'' then Inr (Listener 3)
                 else Inl (GoError ''listen tcp: address already in use''))
      ((fst NewServer)\<lparr>ServerStartedEvent := [Hook 1, Hook 2]\<rparr>) '':502''
      = (Some (GoError ''listen tcp: address already in use''),
         (fst NewServer)\<lparr>ServerStartedEvent := [Hook 1, Hook 2]\<rparr>,
         [Log (FailedToListen (GoError ''listen tcp: address already in use''))])
    \<and> ListenTCP (\<lambda>network address. if address = '':1502'' then Inr (Listener 3)
                 else Inl (GoError ''listen tcp: address already in use''))
      ((fst NewServer)\<lparr>ServerStartedEvent := [Hook 1, Hook 2]\<rparr>) '':1502''
      = (None,
         (fst NewServer)\<lparr>ServerStartedEvent := [Hook 1, Hook 2], listeners := [Listener 3]\<rparr>,
         [FiredListener (Hook 1) (Listener 3), FiredListener (Hook 2) (Listener 3),
          Go (AcceptLoop (Listener 3))])"
proof -
  let ?L = "\<lambda>(network::string) address. if address = '':1502'' then Inr (Listener 3)
                 else Inl (GoError ''listen tcp: address already in use'')"
  let ?s = "(fst NewServer)\<lparr>ServerStartedEvent := [Hook 1, Hook 2]\<rparr>"
  have fails: "?L ''tcp'' '':502'' = Inl (GoError ''listen tcp: address already in use'')"
    by simp
  have binds: "?L ''tcp'' '':1502'' = Inr (Listener 3)"
    by simp
  from ListenTCP_bind_failure_and_success [where net_Listen = ?L and s = ?s
      and addressPort = "'':502''" and err = "GoError ''listen tcp: address already in use''"]
    ListenTCP_bind_failure_and_success [where net_Listen = ?L and s = ?s
      and addressPort = "'':1502''" and listen = "Listener 3"]
    fails binds
  show ?thesis
    by (simp add: NewServer_def)
qed

section \<open>Close\<close>

lemma shutdown_sequence_eq:
  "shutdown_sequence s = Close_listeners s @ [StopSignal, BarrierPassed] @ Close_ports s"
  by (simp add: shutdown_sequence_def Close_listeners_def Close_ports_def)

lemma untouched_refl: "untouched s s"
  by (simp add: untouched_def)

lemma untouched_listeners: "untouched s0 s \<Longrightarrow> listeners s = listeners s0"
  unfolding untouched_def by (drule arg_cong [where f = listeners]) simp

lemma untouched_ports: "untouched s0 s \<Longrightarrow> ports s = ports s0"
  unfolding untouched_def by (drule arg_cong [where f = ports]) simp

lemma untouched_stopped: "untouched s0 s \<Longrightarrow> ServerStoppedEvent s = ServerStoppedEvent s0"
  unfolding untouched_def by (drule arg_cong [where f = ServerStoppedEvent]) simp

lemma untouched_Close_listeners: "untouched s0 s \<Longrightarrow> Close_listeners s = Close_listeners s0"
  by (simp add: Close_listeners_def untouched_listeners untouched_stopped)

lemma untouched_Close_ports: "untouched s0 s \<Longrightarrow> Close_ports s = Close_ports s0"
  by (simp add: Close_ports_def untouched_ports)

lemma untouched_signal: "untouched s0 s \<Longrightarrow> untouched s0 (s\<lparr>portsCloseChan := Closed\<rparr>)"
  by (simp add: untouched_def)

lemma untouched_exit: "untouched s0 s \<Longrightarrow> untouched s0 (PortWorker_exit s)"
  by (simp add: untouched_def PortWorker_exit_def)

lemma PortWorker_exit_portsWG: "portsWG (PortWorker_exit s) \<le> portsWG s"
  by (simp add: PortWorker_exit_def)

lemma PortWorker_exit_portsWG_0: "portsWG s = 0 \<Longrightarrow> portsWG (PortWorker_exit s) = 0"
  by (simp add: PortWorker_exit_def)

lemma PortWorker_exit_portsCloseChan: "portsCloseChan (PortWorker_exit s) = portsCloseChan s"
  by (simp add: PortWorker_exit_def)

lemma untouched_final:
  assumes "untouched s0 s" and "portsWG s = 0" and "portsCloseChan s = Closed"
  shows "s = s0\<lparr>portsWG := 0, portsCloseChan := Closed\<rparr>"
proof -
  have "s = (s\<lparr>portsWG := 0, portsCloseChan := Open\<rparr>)\<lparr>portsCloseChan := Closed\<rparr>"
    using assms(2,3) by simp
  also have "\<dots> = (s0\<lparr>portsWG := 0, portsCloseChan := Open\<rparr>)\<lparr>portsCloseChan := Closed\<rparr>"
    using assms(1) by (simp only: untouched_def)
  finally show ?thesis by simp
qed

lemma Close_inv_step: "Close_inv s0 (pc, s, t) \<Longrightarrow> Close_inv s0 (Close_step (pc, s, t))"
  by (cases pc)
     (auto simp: untouched_Close_listeners untouched_Close_ports untouched_signal shutdown_sequence_eq)

lemma Close_inv_move: "Close_inv s0 st \<Longrightarrow> Close_inv s0 (Close_move m st)"
proof (cases st)
  case (fields pc s t)
  assume "Close_inv s0 st"
  with fields show ?thesis
  proof (cases m)
    case CloseMoves
    with \<open>Close_inv s0 st\<close> fields show ?thesis
      using Close_inv_step [of s0 pc s t] by simp
  next
    case PortWorkerLeaves
    with \<open>Close_inv s0 st\<close> fields show ?thesis
      using PortWorker_exit_portsWG [of s]
      by (cases pc)
         (auto simp: untouched_exit PortWorker_exit_portsWG_0 PortWorker_exit_portsCloseChan)
  qed
qed

lemma Close_inv_run: "Close_inv s0 st \<Longrightarrow> Close_inv s0 (Close_run sched st)"
  by (induction sched arbitrary: st) (simp_all add: Close_inv_move)

lemma Close_inv_call: "Close_inv s (Close_call s)"
  by (simp add: Close_call_def untouched_refl)

lemma Close_inv_reachable: "Close_inv s (Close_run sched (Close_call s))"
  by (rule Close_inv_run [OF Close_inv_call])













lemma handler_one:
  assumes "requestChan s = Open"
  shows "handler call Bytes s [request] =
    (if requestChan (snd (handle call s request)) = Closed
     then Panics ''nil pointer dereference'' else Blocks,
     snd (handle call s request),
     map (\<lambda>h. FiredFrame h (conn request) (frame request)) (RequestReceivedEvent s)
       @ ConnWrite (conn request) (Bytes (fst (handle call s request)))
       # map (\<lambda>h. FiredFrame h (conn request) (fst (handle call s request)))
           (ResponseSentEvent (snd (handle call s request))))"
  using assms by (simp add: case_prod_beta Let_def)

lemma handle_dispatch:
  "fst (handle call s request) =
    (case function_table s (GetFunction (frame request)) of
       None \<Rightarrow> SetException (Canonical IllegalFunction) (Copy (frame request))
     | Some h \<Rightarrow>
         (case call h s (frame request) of
            (data, exception, s1) \<Rightarrow>
              if exception \<noteq> Canonical Success
              then SetException exception (SetData data (Copy (frame request)))
              else SetData data (Copy (frame request))))"
  by (simp add: handle_def case_prod_beta Let_def split: option.splits)

text \<open>
  C10. A \<^verbatim>\<open>Close\<close> that has returned has changed the server in two fields only: the stop
  channel is closed and the counter of port workers is zero. The request channel is still
  open, the function table and the four memory banks are as before. A connection worker
  still running then hands the next parsed frame to the dispatcher, and the dispatcher
  dispatches it through the function table as it was before \<^verbatim>\<open>Close\<close> and writes the
  serialised response on the request's connection.
\<close>

theorem Close_leaves_dispatch_running:
  assumes "Close_run sched (Close_call s) = (HasReturned, s', t)"
    and "requestChan s = Open"
    and "NewTCPFrame packet = Inr fr"
  shows "s' = s\<lparr>portsWG := 0, portsCloseChan := Closed\<rparr>
    \<and> requestChan s' = Open
    \<and> function_table s' = function_table s
    \<and> DiscreteInputs s' = DiscreteInputs s \<and> Coils s' = Coils s
    \<and> HoldingRegisters s' = HoldingRegisters s \<and> InputRegisters s' = InputRegisters s
    \<and> handoffs (snd (worker NewTCPFrame s' c [Read packet None])) = [\<lparr>conn = c, frame = fr\<rparr>]
    \<and> writes_on c (snd (snd (handler call Bytes s' [\<lparr>conn = c, frame = fr\<rparr>])))
        = [Bytes (fst (handle call s' \<lparr>conn = c, frame = fr\<rparr>))]
    \<and> fst (handle call s' \<lparr>conn = c, frame = fr\<rparr>) =
        (case function_table s (GetFunction fr) of
           None \<Rightarrow> SetException (Canonical IllegalFunction) (Copy fr)
         | Some h \<Rightarrow>
             (case call h s' fr of
                (data, exception, s1) \<Rightarrow>
                  if exception \<noteq> Canonical Success
                  then SetException exception (SetData data (Copy fr))
                  else SetData data (Copy fr)))"
proof -
  have inv: "Close_inv s (HasReturned, s', t)"
    using Close_inv_reachable [of s sched] assms(1) by simp
  then have u: "untouched s s'" and wg: "portsWG s' = 0" and ch: "portsCloseChan s' = Closed"
    by simp_all
  have eq: "s' = s\<lparr>portsWG := 0, portsCloseChan := Closed\<rparr>"
    by (rule untouched_final [OF u wg ch])
  have rc: "requestChan s' = Open"
    using assms(2) by (simp add: eq)
  have ft: "function_table s' = function_table s"
    by (simp add: eq)
  have banks: "DiscreteInputs s' = DiscreteInputs s \<and> Coils s' = Coils s
      \<and> HoldingRegisters s' = HoldingRegisters s \<and> InputRegisters s' = InputRegisters s"
    by (simp add: eq)
  have w: "handoffs (snd (worker NewTCPFrame s' c [Read packet None])) = [\<lparr>conn = c, frame = fr\<rparr>]"
    using rc assms(3) by simp
  have h: "writes_on c (snd (snd (handler call Bytes s' [\<lparr>conn = c, frame = fr\<rparr>])))
        = [Bytes (fst (handle call s' \<lparr>conn = c, frame = fr\<rparr>))]"
    by (simp del: handler.simps add: handler_one [OF rc] writes_on_append writes_on_FiredFrame)
  have d: "fst (handle call s' \<lparr>conn = c, frame = fr\<rparr>) =
        (case function_table s (GetFunction fr) of
           None \<Rightarrow> SetException (Canonical IllegalFunction) (Copy fr)
         | Some h \<Rightarrow>
             (case call h s' fr of
                (data, exception, s1) \<Rightarrow>
                  if exception \<noteq> Canonical Success
                  then SetException exception (SetData data (Copy fr))
                  else SetData data (Copy fr)))"
    using handle_dispatch [of call s' "\<lparr>conn = c, frame = fr\<rparr>"] ft
    by (simp split: option.splits prod.splits)
  show ?thesis
    using eq rc ft banks w h d by blast
qed


theorem Close_leaves_dispatch_running_witness:
  "Close_run [CloseMoves, CloseMoves, CloseMoves, CloseMoves]
      (Close_call ((fst NewServer)\<lparr>listeners := [Listener 1]\<rparr>))
    = (HasReturned, (fst NewServer)\<lparr>listeners := [Listener 1], portsCloseChan := Closed\<rparr>,
       [ListenerClose (Listener 1), StopSignal, BarrierPassed])
   \<and> writes_on (Conn 4)
       (snd (snd (handler (\<lambda>h s f. ([2, 18, 52], Canonical Success, s)) (\<lambda>f. fcode f # header f)
          ((fst NewServer)\<lparr>listeners := [Listener 1], portsCloseChan := Closed\<rparr>)
          [\<lparr>conn = Conn 4, frame = \<lparr>header = [], fcode = 3, body = Payload [0, 10, 0, 1]\<rparr>\<rparr>])))
    = [[3]]"
proof -
  let ?s = "(fst NewServer)\<lparr>listeners := [Listener 1]\<rparr>"
  let ?s' = "(fst NewServer)\<lparr>listeners := [Listener 1], portsCloseChan := Closed\<rparr>"
  let ?P = "\<lambda>p::bytes. (Inr \<lparr>header = [], fcode = 3, body = Payload p\<rparr> :: go_error + Framer)"
  let ?call = "\<lambda>(h::Handler) (s::Server) (f::Framer). ([2, 18, 52] :: bytes, Canonical Success, s)"
  let ?B = "\<lambda>f::Framer. fcode f # header f"
  have run: "Close_run [CloseMoves, CloseMoves, CloseMoves, CloseMoves] (Close_call ?s)
      = (HasReturned, ?s', [ListenerClose (Listener 1), StopSignal, BarrierPassed])"
    by (simp add: Close_call_def NewServer_def Close_listeners_def Close_ports_def)
  have chan: "requestChan ?s = Open"
    by (simp add: NewServer_def)
  have parse: "?P [0, 10, 0, 1] = Inr \<lparr>header = [], fcode = 3, body = Payload [0, 10, 0, 1]\<rparr>"
    by simp
  have resp: "fst (handle ?call ?s'
      \<lparr>conn = Conn 4, frame = \<lparr>header = [], fcode = 3, body = Payload [0, 10, 0, 1]\<rparr>\<rparr>)
      = \<lparr>header = [], fcode = 3, body = Payload [2, 18, 52]\<rparr>"
    by (simp add: handle_def NewServer_def GetFunction_def Copy_def SetData_def)
  let ?rq = "\<lparr>conn = Conn 4, frame = \<lparr>header = [], fcode = 3, body = Payload [0, 10, 0, 1]\<rparr>\<rparr>"
  have "writes_on (Conn 4) (snd (snd (handler ?call ?B ?s' [?rq])))
      = [?B (fst (handle ?call ?s' ?rq))]"
    using Close_leaves_dispatch_running [where NewTCPFrame = ?P and call = ?call
        and Bytes = ?B, OF run chan parse, of "Conn 4"]
    by blast
  then have "writes_on (Conn 4) (snd (snd (handler ?call ?B ?s' [?rq]))) = [[3]]"
    by (simp only: resp) simp
  with run show ?thesis
    by blast
qed

end
